theory Spec2Isabelle
  imports Main "HOL-Library.AList" "HOL-Library.Sublist"
begin

section \<open>Python values: errors, strings, integers\<close>

text \<open>
  The exceptions the router can raise, as values. \<open>LibraryError\<close> stands for whatever
  \<^verbatim>\<open>create_variants_data\<close> raises, \<open>OperationalError\<close> for a failing call on the
  database session.
\<close>

datatype py_error =
    AttributeError
  | KeyError string
  | ValueError
  | ParserError
  | MultipleResultsFound
  | OperationalError
  | InvalidRequestError
  | LibraryError

text \<open>
  Strings are lists of characters. Whitespace, lower and upper case are those of the
  ASCII range: \<^verbatim>\<open>str.strip\<close>, \<^verbatim>\<open>str.lower\<close> and the regular expression class
  \<^verbatim>\<open>\s\<close> agree on tab, line feed, vertical tab, form feed, carriage return, the four
  separators 0x1C to 0x1F and the space.
\<close>

definition whitespace :: string where
  "whitespace = [CHR 0x09, CHR 0x0A, CHR 0x0B, CHR 0x0C, CHR 0x0D,
                 CHR 0x1C, CHR 0x1D, CHR 0x1E, CHR 0x1F, CHR 0x20]"

definition is_space :: "char \<Rightarrow> bool" where
  "is_space c = (c \<in> set whitespace)"

definition ascii_uppercase :: string where
  "ascii_uppercase = ''ABCDEFGHIJKLMNOPQRSTUVWXYZ''"

definition ascii_lowercase :: string where
  "ascii_lowercase = ''abcdefghijklmnopqrstuvwxyz''"

definition lower_char :: "char \<Rightarrow> char" where
  "lower_char c = (case map_of (zip ascii_uppercase ascii_lowercase) c of Some l \<Rightarrow> l | None \<Rightarrow> c)"

definition upper_char :: "char \<Rightarrow> char" where
  "upper_char c = (case map_of (zip ascii_lowercase ascii_uppercase) c of Some u \<Rightarrow> u | None \<Rightarrow> c)"

definition lower :: "string \<Rightarrow> string" where
  "lower s = map lower_char s"

definition upper :: "string \<Rightarrow> string" where
  "upper s = map upper_char s"

definition capitalize :: "string \<Rightarrow> string" where
  "capitalize s = (case s of [] \<Rightarrow> [] | c # cs \<Rightarrow> upper_char c # lower cs)"

definition strip :: "string \<Rightarrow> string" where
  "strip s = rev (dropWhile is_space (rev (dropWhile is_space s)))"

text \<open>
  \<^verbatim>\<open>str(i)\<close> on an unbounded integer: the decimal digits, most significant first, with
  a minus sign in front of a negative number.
\<close>

definition digit_char :: "nat \<Rightarrow> char" where
  "digit_char d = ''0123456789'' ! d"

function str_nat :: "nat \<Rightarrow> string" where
  "str_nat n = (if n < 10 then [digit_char n] else str_nat (n div 10) @ [digit_char (n mod 10)])"
  by pat_completeness auto
termination
  by (relation "measure (\<lambda>n. n)") auto

declare str_nat.simps [simp del]

definition str_int :: "int \<Rightarrow> string" where
  "str_int i = (if i < 0 then CHR ''-'' # str_nat (nat (- i)) else str_nat (nat i))"

text \<open>\<^verbatim>\<open>str(x)\<close> on an optional string: \<^verbatim>\<open>None\<close> prints as the four letters.\<close>

definition str_opt :: "string option \<Rightarrow> string" where
  "str_opt x = (case x of None \<Rightarrow> ''None'' | Some s \<Rightarrow> s)"

section \<open>The null pattern and \<^verbatim>\<open>is_null\<close>\<close>

text \<open>
  \<^verbatim>\<open>null_values_re = re.compile(r'\s+|none|nan|na|undefined|n/a|null|nil', flags=re.IGNORECASE)\<close>.
  The pattern is an alternation of literal words and of \<^verbatim>\<open>\s+\<close>; a pattern of that
  shape is the list of its alternatives. Under \<^verbatim>\<open>IGNORECASE\<close> a literal matches a
  string that is equal to it once both are put in lower case.
\<close>

datatype re_atom = Spaces | Lit string

definition null_values_re :: "re_atom list" where
  "null_values_re =
     [Spaces, Lit ''none'', Lit ''nan'', Lit ''na'', Lit ''undefined'', Lit ''n/a'',
      Lit ''null'', Lit ''nil'']"

fun atom_fullmatch :: "re_atom \<Rightarrow> string \<Rightarrow> bool" where
  "atom_fullmatch Spaces s = (s \<noteq> [] \<and> list_all is_space s)"
| "atom_fullmatch (Lit w) s = (lower s = lower w)"

text \<open>\<^verbatim>\<open>pattern.fullmatch(s)\<close>: some alternative matches all of \<open>s\<close>.\<close>

definition re_fullmatch :: "re_atom list \<Rightarrow> string \<Rightarrow> bool" where
  "re_fullmatch alts s = list_ex (\<lambda>a. atom_fullmatch a s) alts"

text \<open>\<^verbatim>\<open>pattern.search(s)\<close>: some contiguous part of \<open>s\<close> is matched by the pattern.\<close>

definition re_search :: "re_atom list \<Rightarrow> string \<Rightarrow> bool" where
  "re_search alts s = list_ex (re_fullmatch alts) (sublists s)"

text \<open>
  \<^verbatim>\<open>is_null(value)\<close> for a string argument (\<^verbatim>\<open>str(value)\<close> is then the identity). The
  Python returns a match object or a boolean; the model returns its truth value.
\<close>

definition is_null :: "string \<Rightarrow> bool" where
  "is_null val = (let v = lower (strip val) in re_fullmatch null_values_re v \<or> v = [])"

section \<open>Variants and the CSV exporter\<close>

text \<open>
  \<^verbatim>\<open>VariantData\<close> is the dictionary of keyword arguments from which a \<^verbatim>\<open>Variant\<close> row
  is built; a \<^verbatim>\<open>Variant\<close> adds its own urn and the key of its scoreset. The JSON
  column \<^verbatim>\<open>data\<close> is a dictionary of dictionaries, kept in insertion order and read
  with \<open>map_of\<close>. The type \<open>'v\<close> is the type of the stored JSON scalars.
\<close>

record 'v variant_data =
  hgvs_nt :: "string option"
  hgvs_pro :: "string option"
  hgvs_splice :: "string option"
  data :: "(string \<times> (string \<times> 'v) list) list"

record 'v variant = "'v variant_data" +
  variant_urn :: string
  scoreset_id :: int

definition Variant :: "string \<Rightarrow> int \<Rightarrow> 'v variant_data \<Rightarrow> 'v variant" where
  "Variant u sid kwargs =
     \<lparr>hgvs_nt = hgvs_nt kwargs, hgvs_pro = hgvs_pro kwargs, hgvs_splice = hgvs_splice kwargs,
      data = data kwargs, variant_urn = u, scoreset_id = sid\<rparr>"

text \<open>
  The body of the inner loop of \<^verbatim>\<open>format_csv_rows\<close> up to the null test: the value
  read for one column. \<^verbatim>\<open>variant.data[dtype][column_key]\<close> raises \<^verbatim>\<open>KeyError\<close> when
  either key is missing. \<open>str_of\<close> is Python's \<^verbatim>\<open>str\<close> on a stored scalar.
\<close>

definition column_value :: "('v \<Rightarrow> string) \<Rightarrow> 'v variant \<Rightarrow> string \<Rightarrow> string \<Rightarrow> py_error + string" where
  "column_value str_of v dtype column_key =
     (if column_key = ''hgvs_nt'' then Inr (str_opt (hgvs_nt v))
      else if column_key = ''hgvs_pro'' then Inr (str_opt (hgvs_pro v))
      else if column_key = ''hgvs_splice'' then Inr (str_opt (hgvs_splice v))
      else if column_key = ''accession'' then Inr (variant_urn v)
      else (case map_of (data v) dtype of
              None \<Rightarrow> Inl (KeyError dtype)
            | Some d \<Rightarrow> (case map_of d column_key of
                           None \<Rightarrow> Inl (KeyError column_key)
                         | Some x \<Rightarrow> Inr (str_of x))))"

text \<open>
  The inner loop: \<open>row\<close> is the dictionary \<^verbatim>\<open>data\<close> built so far, and an assignment
  \<^verbatim>\<open>data[column_key] = value\<close> replaces the value of a key already there or adds the key
  at the end.
\<close>

fun format_row ::
  "('v \<Rightarrow> string) \<Rightarrow> 'v variant \<Rightarrow> string list \<Rightarrow> string \<Rightarrow> string \<Rightarrow> (string \<times> string) list
     \<Rightarrow> py_error + (string \<times> string) list" where
  "format_row str_of v [] dtype na_rep row = Inr row"
| "format_row str_of v (column_key # cols) dtype na_rep row =
     (case column_value str_of v dtype column_key of
        Inl e \<Rightarrow> Inl e
      | Inr val \<Rightarrow>
          format_row str_of v cols dtype na_rep
            (AList.update column_key (if is_null val then na_rep else val) row))"

text \<open>The outer loop: one dictionary per variant, appended to \<^verbatim>\<open>rowdicts\<close> in order.\<close>

fun format_csv_rows ::
  "('v \<Rightarrow> string) \<Rightarrow> 'v variant list \<Rightarrow> string list \<Rightarrow> string \<Rightarrow> string
     \<Rightarrow> py_error + (string \<times> string) list list" where
  "format_csv_rows str_of [] cols dtype na_rep = Inr []"
| "format_csv_rows str_of (v # vs) cols dtype na_rep =
     (case format_row str_of v cols dtype na_rep [] of
        Inl e \<Rightarrow> Inl e
      | Inr row \<Rightarrow>
          (case format_csv_rows str_of vs cols dtype na_rep of
             Inl e \<Rightarrow> Inl e
           | Inr rowdicts \<Rightarrow> Inr (row # rowdicts)))"

section \<open>The scoreset and its counter\<close>

text \<open>
  The columns of \<^verbatim>\<open>Scoreset\<close> that the variant routes read and write. \<open>ident\<close> is the
  primary key \<^verbatim>\<open>id\<close>, \<open>is_private\<close> the column \<^verbatim>\<open>private\<close>; \<^verbatim>\<open>dataset_columns\<close> is the
  JSON object with the keys \<^verbatim>\<open>count_columns\<close> and \<^verbatim>\<open>score_columns\<close>.
\<close>

record dataset_columns_t =
  count_columns :: "string list"
  score_columns :: "string list"

record scoreset =
  ident :: int
  urn :: string
  is_private :: bool
  num_variants :: int
  dataset_columns :: dataset_columns_t
  modified_by :: string

text \<open>
  \<^verbatim>\<open>bulk_create_urns(n, scoreset, reset_counter=False)\<close>: the list comprehension over
  \<^verbatim>\<open>range(n)\<close> is a map over \<open>[0..n - 1]\<close> (empty when \<open>n \<le> 0\<close>); the assignment to
  \<^verbatim>\<open>scoreset.num_variants\<close> is returned as the updated record.
\<close>

definition bulk_create_urns :: "int \<Rightarrow> scoreset \<Rightarrow> bool \<Rightarrow> string list \<times> scoreset" where
  "bulk_create_urns n scoreset reset_counter =
     (let start_value = (if reset_counter then 0 else num_variants scoreset);
          parent_urn = urn scoreset;
          child_urns = map (\<lambda>i. parent_urn @ ''#'' @ str_int (start_value + (i + 1))) [0..n - 1];
          current_value = start_value + n
      in (child_urns, scoreset\<lparr>num_variants := current_value\<rparr>))"

section \<open>The database session\<close>

text \<open>
  The two tables the routes touch. A session made by \<^verbatim>\<open>sessionmaker(autocommit=False,
  autoflush=False)\<close> works inside a transaction: \<open>persisted\<close> is what the database
  holds for every other session and for every later request, \<open>pending\<close> is the view of
  the open transaction. Only \<^verbatim>\<open>db.commit()\<close> copies the second into the first; a request
  that ends with an exception leaves \<open>persisted\<close> as it is.

  A call on the session can fail in the storage engine. \<open>db_fault\<close> names the call of
  the request at which it does, if any.
\<close>

record 'v db_state =
  scoreset_table :: "scoreset list"
  variant_table :: "'v variant list"

record 'v session =
  persisted :: "'v db_state"
  pending :: "'v db_state"

datatype db_fault = NoFault | QueryFails | BulkSaveFails | CommitFails | RefreshFails

definition begin_session :: "'v db_state \<Rightarrow> 'v session" where
  "begin_session d = \<lparr>persisted = d, pending = d\<rparr>"

text \<open>\<^verbatim>\<open>Query.one_or_none()\<close>.\<close>

definition one_or_none :: "'a list \<Rightarrow> py_error + 'a option" where
  "one_or_none rows =
     (case rows of [] \<Rightarrow> Inr None | [r] \<Rightarrow> Inr (Some r) | _ \<Rightarrow> Inl MultipleResultsFound)"

text \<open>
  \<^verbatim>\<open>db.query(Scoreset).filter(Scoreset.urn == urn).filter(Scoreset.private.is_(False)).one_or_none()\<close>
\<close>

definition query_scoreset :: "db_fault \<Rightarrow> string \<Rightarrow> 'v session \<Rightarrow> py_error + scoreset option" where
  "query_scoreset fault u db =
     (if fault = QueryFails then Inl OperationalError
      else one_or_none (filter (\<lambda>s. urn s = u \<and> \<not> is_private s) (scoreset_table (pending db))))"

text \<open>\<^verbatim>\<open>db.bulk_save_objects(variants)\<close>: the rows are inserted inside the transaction.\<close>

definition bulk_save_objects :: "db_fault \<Rightarrow> 'v variant list \<Rightarrow> 'v session \<Rightarrow> py_error + 'v session" where
  "bulk_save_objects fault objs db =
     (if fault = BulkSaveFails then Inl OperationalError
      else Inr (db\<lparr>pending := (pending db)\<lparr>variant_table := variant_table (pending db) @ objs\<rparr>\<rparr>))"

text \<open>
  \<^verbatim>\<open>db.add(scoreset)\<close> for an object loaded by this session: its changed attributes are
  part of the transaction, the row with its primary key now reads as the object does.
\<close>

definition add :: "scoreset \<Rightarrow> 'v session \<Rightarrow> 'v session" where
  "add item db =
     db\<lparr>pending := (pending db)
          \<lparr>scoreset_table := map (\<lambda>r. if ident r = ident item then item else r)
                                 (scoreset_table (pending db))\<rparr>\<rparr>"

definition commit :: "db_fault \<Rightarrow> 'v session \<Rightarrow> py_error + 'v session" where
  "commit fault db =
     (if fault = CommitFails then Inl OperationalError else Inr (db\<lparr>persisted := pending db\<rparr>))"

text \<open>\<^verbatim>\<open>db.refresh(item)\<close>: the attributes are read again from the row.\<close>

definition refresh :: "db_fault \<Rightarrow> scoreset \<Rightarrow> 'v session \<Rightarrow> py_error + scoreset" where
  "refresh fault item db =
     (if fault = RefreshFails then Inl OperationalError
      else (case find (\<lambda>r. ident r = ident item) (scoreset_table (pending db)) of
              None \<Rightarrow> Inl InvalidRequestError
            | Some r \<Rightarrow> Inr r))"

text \<open>The relationship \<^verbatim>\<open>scoreset.variants\<close>, read inside the transaction.\<close>

definition scoreset_variants :: "scoreset \<Rightarrow> 'v session \<Rightarrow> 'v variant list" where
  "scoreset_variants s db = filter (\<lambda>v. scoreset_id v = ident s) (variant_table (pending db))"

text \<open>
  \<^verbatim>\<open>create_variants(db, scoreset, variants_data)\<close>. The result carries, besides the
  returned count, the scoreset object as the call leaves it and the session.
\<close>

definition create_variants ::
  "db_fault \<Rightarrow> 'v session \<Rightarrow> scoreset \<Rightarrow> 'v variant_data list
     \<Rightarrow> py_error + (nat \<times> scoreset \<times> 'v session)" where
  "create_variants fault db scoreset variants_data =
     (let n = int (length variants_data);
          (variant_urns, scoreset') = bulk_create_urns n scoreset False;
          variants = map (\<lambda>(u, kwargs). Variant u (ident scoreset') kwargs)
                         (zip variant_urns variants_data)
      in case bulk_save_objects fault variants db of
           Inl e \<Rightarrow> Inl e
         | Inr db' \<Rightarrow>
             (let db'' = add scoreset' db'
              in Inr (length (scoreset_variants scoreset' db''), scoreset', db'')))"


section \<open>Reading an uploaded table\<close>

text \<open>
  An uploaded file after the CSV tokenizer of \<^verbatim>\<open>pandas.read_csv\<close> (separator, quoting
  and the comment prefix \<^verbatim>\<open>#\<close> are its business): the header row and the data rows,
  each a list of fields.
\<close>

record upload_file =
  filename :: string
  header :: "string list"
  records :: "string list list"

text \<open>
  A data frame: the length of its index and its columns in order. A cell is missing
  (\<^verbatim>\<open>NaN\<close>), a number or a string; \<open>'n\<close> is the type of numbers.
\<close>

datatype 'n cell = NaN | Num 'n | Txt string

record 'n dataframe =
  nrows :: nat
  df_columns :: "(string \<times> 'n cell list) list"

datatype dtype = DStr | DFloat

text \<open>
  What the router takes from the libraries, as parameters: the null spellings
  \<^verbatim>\<open>read_csv\<close> knows by default, its conversion of a field to a float (\<open>None\<close> when the
  field is not a number), and its type inference for a column that has no declared
  dtype, which gets each field or \<open>None\<close> for a null field and never raises.
\<close>

record 'n pandas =
  STR_NA_VALUES :: "string list"
  parse_float :: "string \<Rightarrow> 'n option"
  infer_column :: "string option list \<Rightarrow> 'n cell list"

text \<open>The fields of column \<open>j\<close>; a row that ends early has missing fields there.\<close>

definition column_tokens :: "upload_file \<Rightarrow> nat \<Rightarrow> string list" where
  "column_tokens f j = map (\<lambda>r. if j < length r then r ! j else []) (records f)"

text \<open>A column declared \<^verbatim>\<open>float\<close>: a field that is neither null nor a number raises.\<close>

fun to_float :: "'n pandas \<Rightarrow> string list \<Rightarrow> string list \<Rightarrow> py_error + 'n cell list" where
  "to_float P na [] = Inr []"
| "to_float P na (t # ts) =
     (if t \<in> set na
      then (case to_float P na ts of Inl e \<Rightarrow> Inl e | Inr cs \<Rightarrow> Inr (NaN # cs))
      else (case parse_float P t of
              None \<Rightarrow> Inl ValueError
            | Some x \<Rightarrow> (case to_float P na ts of Inl e \<Rightarrow> Inl e | Inr cs \<Rightarrow> Inr (Num x # cs))))"

definition convert_column ::
  "'n pandas \<Rightarrow> string list \<Rightarrow> dtype option \<Rightarrow> string list \<Rightarrow> py_error + 'n cell list" where
  "convert_column P na dt toks =
     (case dt of
        Some DFloat \<Rightarrow> to_float P na toks
      | Some DStr \<Rightarrow> Inr (map (\<lambda>t. if t \<in> set na then NaN else Txt t) toks)
      | None \<Rightarrow> Inr (infer_column P (map (\<lambda>t. if t \<in> set na then None else Some t) toks)))"

fun convert_columns ::
  "'n pandas \<Rightarrow> string list \<Rightarrow> (string \<times> dtype) list \<Rightarrow> (string \<times> string list) list
     \<Rightarrow> py_error + (string \<times> 'n cell list) list" where
  "convert_columns P na dts [] = Inr []"
| "convert_columns P na dts ((c, toks) # rest) =
     (case convert_column P na (map_of dts c) toks of
        Inl e \<Rightarrow> Inl e
      | Inr cells \<Rightarrow>
          (case convert_columns P na dts rest of
             Inl e \<Rightarrow> Inl e
           | Inr cols \<Rightarrow> Inr ((c, cells) # cols)))"

text \<open>
  \<^verbatim>\<open>pd.read_csv(..., na_values=na_values, keep_default_na=True, dtype=dts)\<close>: a row with
  more fields than the header is a tokenizing error; each column is converted as its
  declared dtype says, or by inference when it has none.
\<close>

definition read_csv ::
  "'n pandas \<Rightarrow> string list \<Rightarrow> (string \<times> dtype) list \<Rightarrow> upload_file \<Rightarrow> py_error + 'n dataframe" where
  "read_csv P na_values dts f =
     (if list_ex (\<lambda>r. length (header f) < length r) (records f) then Inl ParserError
      else (case convert_columns P (STR_NA_VALUES P @ na_values) dts
                   (zip (header f) (map (column_tokens f) [0..<length (header f)])) of
              Inl e \<Rightarrow> Inl e
            | Inr cols \<Rightarrow> Inr \<lparr>nrows = length (records f), df_columns = cols\<rparr>))"

text \<open>
  \<^verbatim>\<open>DataFrame.replace(pattern, np.NaN)\<close> with a compiled pattern: a string cell in which
  the pattern is found becomes missing; other cells stay.
\<close>

definition df_replace :: "re_atom list \<Rightarrow> 'n dataframe \<Rightarrow> 'n dataframe" where
  "df_replace rx df =
     df\<lparr>df_columns :=
          map (\<lambda>(c, cells).
                 (c, map (\<lambda>x. case x of Txt s \<Rightarrow> if re_search rx s then NaN else Txt s | _ \<Rightarrow> x) cells))
              (df_columns df)\<rparr>"

text \<open>\<^verbatim>\<open>df[c] = np.NaN\<close>: every row of column \<open>c\<close> is missing; a new column goes last.\<close>

definition set_column_nan :: "string \<Rightarrow> 'n dataframe \<Rightarrow> 'n dataframe" where
  "set_column_nan c df =
     df\<lparr>df_columns :=
          (if c \<in> set (map fst (df_columns df))
           then map (\<lambda>(c', cells). if c' = c then (c', replicate (nrows df) NaN) else (c', cells))
                    (df_columns df)
           else df_columns df @ [(c, replicate (nrows df) NaN)])\<rparr>"

definition NUCLEOTIDE :: string where "NUCLEOTIDE = ''hgvs_nt''"
definition TRANSCRIPT :: string where "TRANSCRIPT = ''hgvs_splice''"
definition PROTEIN :: string where "PROTEIN = ''hgvs_pro''"

definition HGVSColumns_options :: "string list" where
  "HGVSColumns_options = [NUCLEOTIDE, TRANSCRIPT, PROTEIN]"

text \<open>
  The dtype argument of both \<^verbatim>\<open>read_csv\<close> calls:
  \<^verbatim>\<open>{**{col: str for col in HGVSColumns.options()}, 'scores': float}\<close>.
\<close>

definition upload_dtype :: "(string \<times> dtype) list" where
  "upload_dtype = map (\<lambda>col. (col, DStr)) HGVSColumns_options @ [(''scores'', DFloat)]"

text \<open>
  The set \<^verbatim>\<open>extra_na_values\<close>, built from \<^verbatim>\<open>null_values_list\<close> of the package
  \<^verbatim>\<open>mavecore\<close> (a parameter here).
\<close>

definition extra_na_values :: "string list \<Rightarrow> string list" where
  "extra_na_values null_values_list =
     null_values_list @ map lower null_values_list @ map upper null_values_list
       @ map capitalize null_values_list"

text \<open>The loop \<^verbatim>\<open>for c in HGVSColumns.options(): if c not in df.columns: df[c] = np.NaN\<close>.\<close>

definition add_missing_hgvs :: "'n dataframe \<Rightarrow> 'n dataframe" where
  "add_missing_hgvs df =
     fold (\<lambda>c d. if c \<notin> set (map fst (df_columns d)) then set_column_nan c d else d)
          HGVSColumns_options df"

text \<open>
  What the route does with one uploaded file, scores or counts: read it, replace the
  null pattern, add the identifier columns it lacks.
\<close>

definition load_table :: "'n pandas \<Rightarrow> string list \<Rightarrow> upload_file \<Rightarrow> py_error + 'n dataframe" where
  "load_table P null_values_list f =
     (case read_csv P (extra_na_values null_values_list) upload_dtype f of
        Inl e \<Rightarrow> Inl e
      | Inr df \<Rightarrow> Inr (add_missing_hgvs (df_replace null_values_re df)))"

text \<open>
  \<^verbatim>\<open>{col for col in df.columns if col not in HGVSColumns.options()}\<close>, later made a list;
  the model lists the names in column order, each once.
\<close>

definition value_columns :: "'n dataframe \<Rightarrow> string list" where
  "value_columns df =
     remdups (filter (\<lambda>col. col \<notin> set HGVSColumns_options) (map fst (df_columns df)))"

section \<open>Uploading variant data\<close>

text \<open>
  Lines 201 to 251 of the route: both tables are read and handed to
  \<^verbatim>\<open>create_variants_data\<close> (of \<^verbatim>\<open>app.lib.scoresets\<close>, a parameter here). The counts
  file is read only when it is given and has a file name.
\<close>

definition read_uploads ::
  "'n pandas \<Rightarrow> string list
     \<Rightarrow> ('n dataframe \<Rightarrow> 'n dataframe option \<Rightarrow> py_error + 'v variant_data list)
     \<Rightarrow> upload_file option \<Rightarrow> upload_file
     \<Rightarrow> py_error + ('v variant_data list \<times> string list \<times> string list)" where
  "read_uploads P null_values_list create_variants_data counts_file scores_file =
     (case load_table P null_values_list scores_file of
        Inl e \<Rightarrow> Inl e
      | Inr scores_df \<Rightarrow>
          (case (case counts_file of
                   None \<Rightarrow> Inr (None, [])
                 | Some cf \<Rightarrow>
                     if filename cf \<noteq> []
                     then (case load_table P null_values_list cf of
                             Inl e \<Rightarrow> Inl e
                           | Inr counts_df \<Rightarrow> Inr (Some counts_df, value_columns counts_df))
                     else Inr (None, [])) of
             Inl e \<Rightarrow> Inl e
           | Inr (counts_df, count_cols) \<Rightarrow>
               (case create_variants_data scores_df counts_df of
                  Inl e \<Rightarrow> Inl e
                | Inr variants_data \<Rightarrow> Inr (variants_data, value_columns scores_df, count_cols))))"

text \<open>
  Lines 257 to 282: the variants are created, the column lists and the user are
  written to the item, the transaction is committed and the item read again.
\<close>

definition save_upload ::
  "db_fault \<Rightarrow> 'v session \<Rightarrow> scoreset \<Rightarrow> 'v variant_data list \<Rightarrow> string list \<Rightarrow> string list
     \<Rightarrow> string \<Rightarrow> (py_error + scoreset option) \<times> 'v session" where
  "save_upload fault db item variants_data score_cols count_cols user =
     (case create_variants fault db item variants_data of
        Inl e \<Rightarrow> (Inl e, db)
      | Inr (k, item1, db1) \<Rightarrow>
          (let item2 = item1\<lparr>dataset_columns :=
                               \<lparr>count_columns = count_cols, score_columns = score_cols\<rparr>,
                             modified_by := user\<rparr>;
               db2 = add item2 db1
           in case commit fault db2 of
                Inl e \<Rightarrow> (Inl e, db2)
              | Inr db3 \<Rightarrow>
                  (case refresh fault item2 db3 of
                     Inl e \<Rightarrow> (Inl e, db3)
                   | Inr item3 \<Rightarrow> (Inr (Some item3), db3))))"

text \<open>
  \<^verbatim>\<open>upload_scoreset_variant_data\<close>. The argument \<open>d\<close> is the database before the
  request; the result pairs what the route returns or raises with the database after
  the request. \<^verbatim>\<open>scores_file\<close> is a required upload, so \<^verbatim>\<open>not scores_file\<close> is false.
\<close>

definition upload_scoreset_variant_data ::
  "'n pandas \<Rightarrow> string list
     \<Rightarrow> ('n dataframe \<Rightarrow> 'n dataframe option \<Rightarrow> py_error + 'v variant_data list)
     \<Rightarrow> db_fault \<Rightarrow> 'v db_state \<Rightarrow> string \<Rightarrow> upload_file option \<Rightarrow> upload_file \<Rightarrow> string
     \<Rightarrow> (py_error + scoreset option) \<times> 'v db_state" where
  "upload_scoreset_variant_data P null_values_list create_variants_data fault d u
       counts_file scores_file user =
     (let db = begin_session d
      in case query_scoreset fault u db of
           Inl e \<Rightarrow> (Inl e, persisted db)
         | Inr None \<Rightarrow> (Inl AttributeError, persisted db)
         | Inr (Some item) \<Rightarrow>
             if urn item = [] then (Inr None, persisted db)
             else (case read_uploads P null_values_list create_variants_data
                          counts_file scores_file of
                     Inl e \<Rightarrow> (Inl e, persisted db)
                   | Inr (variants_data, score_cols, count_cols) \<Rightarrow>
                       (case save_upload fault db item variants_data score_cols count_cols user of
                          (r, db') \<Rightarrow> (r, persisted db'))))"

section \<open>Updating a scoreset\<close>

text \<open>
  The values a field of the update payload can hold, and Python's truth value of each.
  \<open>PObject\<close> is a nested model object (a target gene, an identifier), always true.
\<close>

datatype pyval =
    PNone
  | PBool bool
  | PInt int
  | PStr string
  | PList "pyval list"
  | PDict "(string \<times> pyval) list"
  | PObject "(string \<times> pyval) list"

fun truthy :: "pyval \<Rightarrow> bool" where
  "truthy PNone = False"
| "truthy (PBool b) = b"
| "truthy (PInt i) = (i \<noteq> 0)"
| "truthy (PStr s) = (s \<noteq> [])"
| "truthy (PList xs) = (xs \<noteq> [])"
| "truthy (PDict kvs) = (kvs \<noteq> [])"
| "truthy (PObject attrs) = True"

text \<open>
  \<^verbatim>\<open>update_scoreset\<close> treats every attribute alike, through \<^verbatim>\<open>setattr\<close>; there the stored
  item is its attribute dictionary, and \<^verbatim>\<open>vars(item_update).items()\<close> is the list of the
  payload's fields with their values.
\<close>

type_synonym py_object = "(string \<times> pyval) list"

definition setattr :: "py_object \<Rightarrow> string \<Rightarrow> pyval \<Rightarrow> py_object" where
  "setattr obj var val = AList.update var val obj"

definition getattr :: "py_object \<Rightarrow> string \<Rightarrow> pyval option" where
  "getattr obj var = map_of obj var"

text \<open>The loop \<^verbatim>\<open>for var, value in ...: setattr(item, var, value) if value else None\<close>.\<close>

fun assign_fields :: "(string \<times> pyval) list \<Rightarrow> py_object \<Rightarrow> py_object" where
  "assign_fields [] item = item"
| "assign_fields ((var, val) # rest) item =
     assign_fields rest (if truthy val then setattr item var val else item)"

text \<open>
  \<^verbatim>\<open>update_scoreset\<close>: \<open>table\<close> holds the stored scoresets; the result pairs the returned
  value with the table after the commit.
\<close>

definition update_scoreset ::
  "string \<Rightarrow> (string \<times> pyval) list option \<Rightarrow> py_object list
     \<Rightarrow> (py_error + py_object option) \<times> py_object list" where
  "update_scoreset u item_update table =
     (case item_update of
        None \<Rightarrow> (Inr None, table)
      | Some payload \<Rightarrow>
          (case one_or_none
                  (filter (\<lambda>s. getattr s ''urn'' = Some (PStr u)
                               \<and> getattr s ''private'' = Some (PBool False)) table) of
             Inl e \<Rightarrow> (Inl e, table)
           | Inr None \<Rightarrow> (Inr None, table)
           | Inr (Some item) \<Rightarrow>
               (let item' = assign_fields payload item
                in (Inr (Some item'), map (\<lambda>r. if r = item then item' else r) table))))"

section \<open>Example data\<close>

definition example_scoreset :: scoreset where
  "example_scoreset = \<lparr>ident = 1, urn = ''urn:mavedb:00000001-a-1'', is_private = False,
     num_variants = 9, dataset_columns = \<lparr>count_columns = [], score_columns = []\<rparr>,
     modified_by = []\<rparr>"

definition example_item :: py_object where
  "example_item =
     [(''urn'', PStr ''urn:mavedb:00000001-a-1''), (''private'', PBool False),
      (''title'', PStr ''Old title''), (''abstract_text'', PStr ''Old abstract''),
      (''licence_id'', PInt 1)]"

definition example_payload :: "(string \<times> pyval) list" where
  "example_payload =
     [(''title'', PStr []), (''abstract_text'', PStr ''New abstract''),
      (''licence_id'', PInt 0), (''keywords'', PNone), (''extra_metadata'', PDict [])]"




text \<open>
  The exporter's cell for a variant and a column, as a description to compare
  \<^verbatim>\<open>format_csv_rows\<close> with: the urn for \<^verbatim>\<open>accession\<close>, the identifier for the three
  identifier columns, the stored value of the selected category otherwise, each as a
  string and replaced by the sentinel when \<^verbatim>\<open>is_null\<close> holds of that string; no cell
  when the category or the column is not stored for the variant.
\<close>

definition stored_value :: "'v variant \<Rightarrow> string \<Rightarrow> string \<Rightarrow> 'v option" where
  "stored_value v dtype c =
     (case map_of (data v) dtype of None \<Rightarrow> None | Some d \<Rightarrow> map_of d c)"

definition expected_cell ::
  "('v \<Rightarrow> string) \<Rightarrow> 'v variant \<Rightarrow> string \<Rightarrow> string \<Rightarrow> string \<Rightarrow> string option" where
  "expected_cell str_of v dtype na_rep c =
     map_option (\<lambda>raw. if is_null raw then na_rep else raw)
       (if c = ''accession'' then Some (variant_urn v)
        else if c = ''hgvs_nt'' then Some (str_opt (hgvs_nt v))
        else if c = ''hgvs_pro'' then Some (str_opt (hgvs_pro v))
        else if c = ''hgvs_splice'' then Some (str_opt (hgvs_splice v))
        else map_option str_of (stored_value v dtype c))"

definition example_variant_1 :: "int variant" where
  "example_variant_1 =
     \<lparr>hgvs_nt = Some ''c.1A>G'', hgvs_pro = None, hgvs_splice = None,
      data = [(''score_data'', [(''score'', 12), (''SE'', 3)]), (''count_data'', [])],
      variant_urn = ''urn:mavedb:00000001-a-1#1'', scoreset_id = 1\<rparr>"

definition example_variant_2 :: "int variant" where
  "example_variant_2 =
     \<lparr>hgvs_nt = Some ''c.2C>T'', hgvs_pro = Some ''p.Thr1Ile'', hgvs_splice = None,
      data = [(''score_data'', [(''score'', -7)]), (''count_data'', [])],
      variant_urn = ''urn:mavedb:00000001-a-1#2'', scoreset_id = 1\<rparr>"

text \<open>
  Stand-ins for the library parameters, used in the examples only. Numbers are
  integers written in decimal digits; a column without declared dtype is numeric when
  every field that is not null is a number, and text otherwise.
\<close>

definition digit_value :: "char \<Rightarrow> int" where
  "digit_value c = int (length (takeWhile (\<lambda>d. d \<noteq> c) ''0123456789''))"

definition parse_decimal :: "string \<Rightarrow> int option" where
  "parse_decimal s =
     (if s \<noteq> [] \<and> list_all (\<lambda>c. c \<in> set ''0123456789'') s
      then Some (fold (\<lambda>c n. 10 * n + digit_value c) s 0)
      else None)"

definition infer_numeric_or_text :: "(string \<Rightarrow> 'n option) \<Rightarrow> string option list \<Rightarrow> 'n cell list" where
  "infer_numeric_or_text parse toks =
     (case those (map (\<lambda>t. case t of None \<Rightarrow> Some NaN | Some s \<Rightarrow> map_option Num (parse s)) toks) of
        Some cells \<Rightarrow> cells
      | None \<Rightarrow> map (\<lambda>t. case t of None \<Rightarrow> NaN | Some s \<Rightarrow> Txt s) toks)"

definition example_pandas :: "int pandas" where
  "example_pandas =
     \<lparr>STR_NA_VALUES = ['''', ''#N/A'', ''N/A'', ''NA'', ''NULL'', ''NaN'', ''n/a'', ''nan'', ''null''],
      parse_float = parse_decimal,
      infer_column = infer_numeric_or_text parse_decimal\<rparr>"

definition example_null_values_list :: "string list" where
  "example_null_values_list = [''nan'', ''na'', ''none'']"

text \<open>A stand-in for \<^verbatim>\<open>create_variants_data\<close>: one variant per row of the scores table.\<close>

definition cell_at :: "'n dataframe \<Rightarrow> string \<Rightarrow> nat \<Rightarrow> 'n cell" where
  "cell_at df c i =
     (case map_of (df_columns df) c of
        None \<Rightarrow> NaN
      | Some cells \<Rightarrow> if i < length cells then cells ! i else NaN)"

definition cell_text :: "'n cell \<Rightarrow> string option" where
  "cell_text x = (case x of Txt s \<Rightarrow> Some s | _ \<Rightarrow> None)"

definition example_create_variants_data ::
  "'n dataframe \<Rightarrow> 'n dataframe option \<Rightarrow> py_error + 'n cell variant_data list" where
  "example_create_variants_data scores_df counts_df =
     Inr (map (\<lambda>i. \<lparr>hgvs_nt = cell_text (cell_at scores_df ''hgvs_nt'' i),
                     hgvs_pro = cell_text (cell_at scores_df ''hgvs_pro'' i),
                     hgvs_splice = cell_text (cell_at scores_df ''hgvs_splice'' i),
                     data = [(''score_data'',
                              map (\<lambda>c. (c, cell_at scores_df c i)) (value_columns scores_df)),
                             (''count_data'', [])]\<rparr>)
              [0..<nrows scores_df])"

definition example_scores_file :: upload_file where
  "example_scores_file =
     \<lparr>filename = ''scores.csv'', header = [''hgvs_nt'', ''score''],
      records = [[''c.1A>G'', ''12'']]\<rparr>"

definition old_variant :: "int cell variant" where
  "old_variant =
     \<lparr>hgvs_nt = Some ''c.5G>C'', hgvs_pro = None, hgvs_splice = None,
      data = [(''score_data'', [(''score'', Num 4)]), (''count_data'', [])],
      variant_urn = ''urn:mavedb:00000001-a-1#9'', scoreset_id = 1\<rparr>"

definition stored_db :: "int cell db_state" where
  "stored_db = \<lparr>scoreset_table = [example_scoreset], variant_table = [old_variant]\<rparr>"

section \<open>Properties of the decimal rendering\<close>

lemma map_upto_shift_gen: "map (\<lambda>i. f (i + 1)) [a..b] = map f [a + 1..b + (1::int)]"
proof (induction a b rule: upto.induct)
  case (1 i j)
  show ?case
  proof (cases "i \<le> j")
    case True
    then show ?thesis using 1 by (simp add: upto_rec1 [of i j] upto_rec1 [of "i + 1" "j + 1"])
  next
    case False
    then show ?thesis by simp
  qed
qed

lemma map_upto_shift: "map (\<lambda>i. f (i + 1)) [0..n - 1] = map f [1..(n::int)]"
  using map_upto_shift_gen [of f 0 "n - 1"] by simp











section \<open>The identifier assigner\<close>

text \<open>
  Claim C2. For \<open>n \<ge> 0\<close> and a scoreset whose counter is \<open>c\<close>, \<^verbatim>\<open>bulk_create_urns\<close>
  without reset returns the urns \<^verbatim>\<open>{parent_urn}#{c+1}\<close> to \<^verbatim>\<open>{parent_urn}#{c+n}\<close> in
  that order and sets the counter to \<open>c + n\<close>; with reset it returns
  \<^verbatim>\<open>{parent_urn}#1\<close> to \<^verbatim>\<open>{parent_urn}#{n}\<close> and sets the counter to \<open>n\<close>.
\<close>

theorem bulk_create_urns_spec:
  assumes "0 \<le> n" and "num_variants s = c"
  shows "bulk_create_urns n s False =
           (map (\<lambda>k. urn s @ ''#'' @ str_int (c + k)) [1..n], s\<lparr>num_variants := c + n\<rparr>)
       \<and> bulk_create_urns n s True =
           (map (\<lambda>k. urn s @ ''#'' @ str_int k) [1..n], s\<lparr>num_variants := n\<rparr>)"
  using assms map_upto_shift [of "\<lambda>k. urn s @ ''#'' @ str_int (c + k)" n]
    map_upto_shift [of "\<lambda>k. urn s @ ''#'' @ str_int k" n]
  by (simp add: bulk_create_urns_def Let_def)

theorem bulk_create_urns_spec_witness:
  "(0::int) \<le> 3 \<and> num_variants example_scoreset = 9
   \<and> bulk_create_urns 3 example_scoreset False =
        ([''urn:mavedb:00000001-a-1#10'', ''urn:mavedb:00000001-a-1#11'', ''urn:mavedb:00000001-a-1#12''],
         example_scoreset\<lparr>num_variants := 12\<rparr>)
   \<and> bulk_create_urns 3 example_scoreset True =
        ([''urn:mavedb:00000001-a-1#1'', ''urn:mavedb:00000001-a-1#2'', ''urn:mavedb:00000001-a-1#3''],
         example_scoreset\<lparr>num_variants := 3\<rparr>)"
proof -
  have h1: "(0::int) \<le> 3" by simp
  have h2: "num_variants example_scoreset = 9" by (simp add: example_scoreset_def)
  have u: "[1..(3::int)] = [1, 2, 3]" by (simp add: upto.simps)
  have s: "str_int 1 = ''1''" "str_int 2 = ''2''" "str_int 3 = ''3''"
          "str_int 10 = ''10''" "str_int 11 = ''11''" "str_int 12 = ''12''"
    by (simp_all add: str_int_def str_nat.simps digit_char_def)
  show ?thesis
    using bulk_create_urns_spec [OF h1 h2] h1 h2 by (simp add: u s example_scoreset_def)
qed

section \<open>The null normalizer\<close>















section \<open>Updating a scoreset: falsy fields are skipped\<close>

lemma getattr_setattr: "getattr (setattr obj var val) x = (if x = var then Some val else getattr obj x)"
  by (simp add: getattr_def setattr_def update_conv')

lemma getattr_assign_fields:
  "distinct (map fst payload) \<Longrightarrow>
   getattr (assign_fields payload item) x =
     (case map_of payload x of
        Some val \<Rightarrow> if truthy val then Some val else getattr item x
      | None \<Rightarrow> getattr item x)"
proof (induction payload arbitrary: item)
  case Nil
  then show ?case by simp
next
  case (Cons p payload)
  obtain var val where p: "p = (var, val)" by (cases p)
  from Cons.prems p have d: "distinct (map fst payload)" and nv: "var \<notin> fst ` set payload"
    by simp_all
  from nv have none: "map_of payload var = None" by (simp add: map_of_eq_None_iff)
  show ?case
    using Cons.IH [OF d, of "if truthy val then setattr item var val else item"] none
    by (simp add: p getattr_setattr split: option.splits)
qed

text \<open>
  Claim C10. \<^verbatim>\<open>update_scoreset\<close> skips every field of the payload whose value is falsy:
  after the update an attribute of the stored item holds the payload's value when that
  value is truthy and its old value otherwise, also when the payload does not name it.
  So an attribute that changed holds a truthy value of the payload: no attribute is
  ever set to \<^verbatim>\<open>None\<close>, an empty string, zero or false. The payload is a dictionary,
  its keys are distinct; \<open>item\<close> is the one public scoreset with the urn.
\<close>

theorem update_scoreset_skips_falsy:
  assumes "distinct (map fst payload)"
    and "filter (\<lambda>s. getattr s ''urn'' = Some (PStr u) \<and> getattr s ''private'' = Some (PBool False))
           table = [item]"
  shows "update_scoreset u (Some payload) table =
           (Inr (Some (assign_fields payload item)),
            map (\<lambda>r. if r = item then assign_fields payload item else r) table)
       \<and> (\<forall>var. getattr (assign_fields payload item) var =
             (case map_of payload var of
                Some val \<Rightarrow> if truthy val then Some val else getattr item var
              | None \<Rightarrow> getattr item var))
       \<and> (\<forall>var. getattr (assign_fields payload item) var \<noteq> getattr item var \<longrightarrow>
             (\<exists>val. map_of payload var = Some val \<and> truthy val
                  \<and> getattr (assign_fields payload item) var = Some val))"
proof -
  let ?item' = "assign_fields payload item"
  have 1: "update_scoreset u (Some payload) table =
             (Inr (Some ?item'), map (\<lambda>r. if r = item then ?item' else r) table)"
    using assms(2) by (simp add: update_scoreset_def one_or_none_def Let_def)
  have 2: "\<forall>var. getattr ?item' var =
                 (case map_of payload var of
                    Some val \<Rightarrow> if truthy val then Some val else getattr item var
                  | None \<Rightarrow> getattr item var)"
    using getattr_assign_fields [OF assms(1)] by simp
  have 3: "\<forall>var. getattr ?item' var \<noteq> getattr item var \<longrightarrow>
                 (\<exists>val. map_of payload var = Some val \<and> truthy val \<and> getattr ?item' var = Some val)"
    using 2 by (auto split: option.splits if_splits)
  from 1 2 3 show ?thesis by blast
qed

theorem update_scoreset_skips_falsy_witness:
  "distinct (map fst example_payload)
   \<and> filter (\<lambda>s. getattr s ''urn'' = Some (PStr ''urn:mavedb:00000001-a-1'')
                \<and> getattr s ''private'' = Some (PBool False)) [example_item] = [example_item]
   \<and> update_scoreset ''urn:mavedb:00000001-a-1'' (Some example_payload) [example_item] =
        (Inr (Some [(''urn'', PStr ''urn:mavedb:00000001-a-1''), (''private'', PBool False),
                    (''title'', PStr ''Old title''), (''abstract_text'', PStr ''New abstract''),
                    (''licence_id'', PInt 1)]),
         [[(''urn'', PStr ''urn:mavedb:00000001-a-1''), (''private'', PBool False),
           (''title'', PStr ''Old title''), (''abstract_text'', PStr ''New abstract''),
           (''licence_id'', PInt 1)]])
   \<and> getattr (assign_fields example_payload example_item) ''title'' = Some (PStr ''Old title'')
   \<and> getattr (assign_fields example_payload example_item) ''licence_id'' = Some (PInt 1)
   \<and> getattr (assign_fields example_payload example_item) ''keywords'' = None"
proof -
  have h1: "distinct (map fst example_payload)" by (simp add: example_payload_def)
  have h2: "filter (\<lambda>s. getattr s ''urn'' = Some (PStr ''urn:mavedb:00000001-a-1'')
                \<and> getattr s ''private'' = Some (PBool False)) [example_item] = [example_item]"
    by (simp add: example_item_def getattr_def)
  have e: "assign_fields example_payload example_item =
        [(''urn'', PStr ''urn:mavedb:00000001-a-1''), (''private'', PBool False),
         (''title'', PStr ''Old title''), (''abstract_text'', PStr ''New abstract''),
         (''licence_id'', PInt 1)]"
    by (simp add: example_payload_def example_item_def setattr_def)
  show ?thesis
    using update_scoreset_skips_falsy [OF h1 h2] h1 h2 by (simp add: e getattr_def)
qed

section \<open>Successive ingestions never reuse a urn\<close>

lemma length_upto_nat: "length [1..int n] = n"
  by simp











section \<open>The CSV exporter\<close>

lemma column_value_expected:
  "column_value str_of v dtype c = Inr raw \<Longrightarrow>
   expected_cell str_of v dtype na_rep c = Some (if is_null raw then na_rep else raw)"
  by (auto simp add: column_value_def expected_cell_def stored_value_def
      split: if_splits option.splits)

lemma column_value_error:
  "column_value str_of v dtype c = Inl e \<Longrightarrow>
   expected_cell str_of v dtype na_rep c = None \<and> (\<exists>k. e = KeyError k)"
  by (auto simp add: column_value_def expected_cell_def stored_value_def
      split: if_splits option.splits)

lemma format_row_ok:
  "\<forall>c\<in>set cols. expected_cell str_of v dtype na_rep c \<noteq> None \<Longrightarrow>
   \<exists>row. format_row str_of v cols dtype na_rep row0 = Inr row
        \<and> fst ` set row = set cols \<union> fst ` set row0
        \<and> (distinct (map fst row0) \<longrightarrow> distinct (map fst row))
        \<and> (\<forall>c. map_of row c =
              (if c \<in> set cols then expected_cell str_of v dtype na_rep c else map_of row0 c))"
proof (induction cols arbitrary: row0)
  case Nil
  then show ?case by simp
next
  case (Cons k cols)
  from Cons.prems have ek: "expected_cell str_of v dtype na_rep k \<noteq> None"
    and rest: "\<forall>c\<in>set cols. expected_cell str_of v dtype na_rep c \<noteq> None"
    by simp_all
  obtain raw where raw: "column_value str_of v dtype k = Inr raw"
    using ek column_value_error [of str_of v dtype k _ na_rep]
    by (cases "column_value str_of v dtype k") auto
  let ?cell = "if is_null raw then na_rep else raw"
  have cell: "expected_cell str_of v dtype na_rep k = Some ?cell"
    using raw by (rule column_value_expected)
  let ?row1 = "AList.update k ?cell row0"
  obtain row where
    r: "format_row str_of v cols dtype na_rep ?row1 = Inr row"
    and d: "fst ` set row = set cols \<union> fst ` set ?row1"
    and ds: "distinct (map fst ?row1) \<longrightarrow> distinct (map fst row)"
    and m: "\<forall>c. map_of row c =
              (if c \<in> set cols then expected_cell str_of v dtype na_rep c else map_of ?row1 c)"
    using Cons.IH [OF rest, of ?row1] by blast
  have 1: "format_row str_of v (k # cols) dtype na_rep row0 = Inr row"
    using raw r by simp
  have 2: "fst ` set row = set (k # cols) \<union> fst ` set row0"
    using d by (auto simp add: dom_update)
  have 3: "distinct (map fst row0) \<longrightarrow> distinct (map fst row)"
    using ds by (simp add: distinct_update)
  have 4: "\<forall>c. map_of row c =
              (if c \<in> set (k # cols) then expected_cell str_of v dtype na_rep c else map_of row0 c)"
    using m cell by (auto simp add: update_conv')
  from 1 2 3 4 show ?case by blast
qed

lemma format_row_error:
  "\<exists>c\<in>set cols. expected_cell str_of v dtype na_rep c = None \<Longrightarrow>
   \<exists>k. format_row str_of v cols dtype na_rep row0 = Inl (KeyError k)"
proof (induction cols arbitrary: row0)
  case Nil
  then show ?case by simp
next
  case (Cons c cols)
  show ?case
  proof (cases "column_value str_of v dtype c")
    case (Inl e)
    then show ?thesis using column_value_error [OF Inl, of na_rep] by auto
  next
    case (Inr raw)
    then have "expected_cell str_of v dtype na_rep c \<noteq> None"
      using column_value_expected [OF Inr, of na_rep] by simp
    with Cons.prems have "\<exists>c\<in>set cols. expected_cell str_of v dtype na_rep c = None"
      by auto
    then show ?thesis using Cons.IH Inr by simp
  qed
qed

lemma format_csv_rows_ok:
  "\<forall>v\<in>set variants. \<forall>c\<in>set cols. expected_cell str_of v dtype na_rep c \<noteq> None \<Longrightarrow>
   \<exists>rows. format_csv_rows str_of variants cols dtype na_rep = Inr rows
        \<and> length rows = length variants
        \<and> (\<forall>i<length variants.
              distinct (map fst (rows ! i)) \<and> fst ` set (rows ! i) = set cols
            \<and> (\<forall>c\<in>set cols. map_of (rows ! i) c
                   = expected_cell str_of (variants ! i) dtype na_rep c))"
proof (induction variants)
  case Nil
  then show ?case by simp
next
  case (Cons v variants)
  from Cons.prems have hv: "\<forall>c\<in>set cols. expected_cell str_of v dtype na_rep c \<noteq> None"
    and hr: "\<forall>v\<in>set variants. \<forall>c\<in>set cols. expected_cell str_of v dtype na_rep c \<noteq> None"
    by simp_all
  obtain row where
    r: "format_row str_of v cols dtype na_rep [] = Inr row"
    and d: "fst ` set row = set cols" and ds: "distinct (map fst row)"
    and m: "\<forall>c\<in>set cols. map_of row c = expected_cell str_of v dtype na_rep c"
    using format_row_ok [OF hv, of "[]"] by auto
  obtain rows where
    rs: "format_csv_rows str_of variants cols dtype na_rep = Inr rows"
    and l: "length rows = length variants"
    and p: "\<forall>i<length variants.
              distinct (map fst (rows ! i)) \<and> fst ` set (rows ! i) = set cols
            \<and> (\<forall>c\<in>set cols. map_of (rows ! i) c
                   = expected_cell str_of (variants ! i) dtype na_rep c)"
    using Cons.IH [OF hr] by blast
  have 1: "format_csv_rows str_of (v # variants) cols dtype na_rep = Inr (row # rows)"
    using r rs by simp
  have 2: "length (row # rows) = length (v # variants)" using l by simp
  have 3: "\<forall>i<length (v # variants).
              distinct (map fst ((row # rows) ! i)) \<and> fst ` set ((row # rows) ! i) = set cols
            \<and> (\<forall>c\<in>set cols. map_of ((row # rows) ! i) c
                   = expected_cell str_of ((v # variants) ! i) dtype na_rep c)"
  proof (intro allI impI)
    fix i assume "i < length (v # variants)"
    then show "distinct (map fst ((row # rows) ! i)) \<and> fst ` set ((row # rows) ! i) = set cols
            \<and> (\<forall>c\<in>set cols. map_of ((row # rows) ! i) c
                   = expected_cell str_of ((v # variants) ! i) dtype na_rep c)"
      using d ds m p by (cases i) simp_all
  qed
  from 1 2 3 show ?case by blast
qed

lemma format_csv_rows_error:
  "\<exists>v\<in>set variants. \<exists>c\<in>set cols. expected_cell str_of v dtype na_rep c = None \<Longrightarrow>
   \<exists>k. format_csv_rows str_of variants cols dtype na_rep = Inl (KeyError k)"
proof (induction variants)
  case Nil
  then show ?case by simp
next
  case (Cons v variants)
  show ?case
  proof (cases "\<exists>c\<in>set cols. expected_cell str_of v dtype na_rep c = None")
    case True
    then obtain k where "format_row str_of v cols dtype na_rep [] = Inl (KeyError k)"
      using format_row_error [of cols str_of v dtype na_rep "[]"] by blast
    then show ?thesis by simp
  next
    case False
    then have "\<forall>c\<in>set cols. expected_cell str_of v dtype na_rep c \<noteq> None" by simp
    then obtain row where r: "format_row str_of v cols dtype na_rep [] = Inr row"
      using format_row_ok [of cols str_of v dtype na_rep "[]"] by blast
    from False Cons.prems
    have "\<exists>v\<in>set variants. \<exists>c\<in>set cols. expected_cell str_of v dtype na_rep c = None"
      by auto
    then obtain k where "format_csv_rows str_of variants cols dtype na_rep = Inl (KeyError k)"
      using Cons.IH by blast
    then show ?thesis using r by simp
  qed
qed

text \<open>
  Claim C5, as the code has it. \<^verbatim>\<open>format_csv_rows\<close> produces one row per variant, in
  input order, with the requested columns as keys. The cell of \<^verbatim>\<open>accession\<close> is the
  variant's urn, the cells of \<^verbatim>\<open>hgvs_nt\<close>, \<^verbatim>\<open>hgvs_pro\<close> and \<^verbatim>\<open>hgvs_splice\<close> are its
  identifiers, every other cell is the value stored under the column in the selected
  category; each is made a string and replaced by the sentinel when \<^verbatim>\<open>is_null\<close> holds
  of that string. That is so when every variant stores every other requested column in
  the selected category. When some variant does not, no rows are produced: the exporter
  raises \<^verbatim>\<open>KeyError\<close>.
\<close>

theorem format_csv_rows_amended:
  "(if \<forall>v\<in>set variants. \<forall>c\<in>set cols. expected_cell str_of v dtype na_rep c \<noteq> None
    then \<exists>rows. format_csv_rows str_of variants cols dtype na_rep = Inr rows
           \<and> length rows = length variants
           \<and> (\<forall>i<length variants.
                 distinct (map fst (rows ! i)) \<and> fst ` set (rows ! i) = set cols
               \<and> (\<forall>c\<in>set cols. map_of (rows ! i) c
                      = expected_cell str_of (variants ! i) dtype na_rep c))
    else \<exists>k. format_csv_rows str_of variants cols dtype na_rep = Inl (KeyError k))"
proof (cases "\<forall>v\<in>set variants. \<forall>c\<in>set cols. expected_cell str_of v dtype na_rep c \<noteq> None")
  case True
  show ?thesis by (subst if_P [OF True]) (rule format_csv_rows_ok [OF True])
next
  case False
  then have "\<exists>v\<in>set variants. \<exists>c\<in>set cols. expected_cell str_of v dtype na_rep c = None"
    by simp
  then have e: "\<exists>k. format_csv_rows str_of variants cols dtype na_rep = Inl (KeyError k)"
    by (rule format_csv_rows_error)
  show ?thesis by (subst if_not_P [OF False]) (rule e)
qed

lemma example_is_null:
  "\<not> is_null ''urn:mavedb:00000001-a-1#1''" "\<not> is_null ''urn:mavedb:00000001-a-1#2''"
  "\<not> is_null ''c.1A>G''" "\<not> is_null ''c.2C>T''" "\<not> is_null ''p.Thr1Ile''"
  "is_null ''None''" "\<not> is_null ''12''" "\<not> is_null ''-7''" "\<not> is_null ''3''"
  by code_simp+

lemma example_str_int: "str_int 12 = ''12''" "str_int (- 7) = ''-7''" "str_int 3 = ''3''"
  by (simp_all add: str_int_def str_nat.simps digit_char_def)

theorem format_csv_rows_amended_witness:
  "list_all (\<lambda>v. list_all (\<lambda>c. expected_cell str_int v ''score_data'' ''NA'' c \<noteq> None)
                   [''accession'', ''hgvs_nt'', ''hgvs_pro'', ''score''])
            [example_variant_1, example_variant_2]
   \<and> format_csv_rows str_int [example_variant_1, example_variant_2]
        [''accession'', ''hgvs_nt'', ''hgvs_pro'', ''score''] ''score_data'' ''NA'' =
      Inr [[(''accession'', ''urn:mavedb:00000001-a-1#1''), (''hgvs_nt'', ''c.1A>G''),
            (''hgvs_pro'', ''NA''), (''score'', ''12'')],
           [(''accession'', ''urn:mavedb:00000001-a-1#2''), (''hgvs_nt'', ''c.2C>T''),
            (''hgvs_pro'', ''p.Thr1Ile''), (''score'', ''-7'')]]
   \<and> expected_cell str_int example_variant_1 ''score_data'' ''NA'' ''hgvs_pro'' = Some ''NA''
   \<and> (\<exists>k. format_csv_rows str_int [example_variant_1, example_variant_2]
            [''accession'', ''score'', ''SE''] ''score_data'' ''NA'' = Inl (KeyError k))"
proof -
  have h: "list_all (\<lambda>v. list_all (\<lambda>c. expected_cell str_int v ''score_data'' ''NA'' c \<noteq> None)
                   [''accession'', ''hgvs_nt'', ''hgvs_pro'', ''score''])
            [example_variant_1, example_variant_2]"
    by (simp add: expected_cell_def stored_value_def example_variant_1_def example_variant_2_def)
  have ev: "format_csv_rows str_int [example_variant_1, example_variant_2]
        [''accession'', ''hgvs_nt'', ''hgvs_pro'', ''score''] ''score_data'' ''NA'' =
      Inr [[(''accession'', ''urn:mavedb:00000001-a-1#1''), (''hgvs_nt'', ''c.1A>G''),
            (''hgvs_pro'', ''NA''), (''score'', ''12'')],
           [(''accession'', ''urn:mavedb:00000001-a-1#2''), (''hgvs_nt'', ''c.2C>T''),
            (''hgvs_pro'', ''p.Thr1Ile''), (''score'', ''-7'')]]"
    by (simp add: column_value_def example_variant_1_def example_variant_2_def str_opt_def
        example_is_null example_str_int)
  have c: "expected_cell str_int example_variant_1 ''score_data'' ''NA'' ''hgvs_pro'' = Some ''NA''"
    by (simp add: expected_cell_def example_variant_1_def str_opt_def example_is_null)
  have n: "\<not> (\<forall>v\<in>set [example_variant_1, example_variant_2].
             \<forall>c\<in>set [''accession'', ''score'', ''SE''].
               expected_cell str_int v ''score_data'' ''NA'' c \<noteq> None)"
    by (simp add: expected_cell_def stored_value_def example_variant_2_def)
  have e: "\<exists>k. format_csv_rows str_int [example_variant_1, example_variant_2]
            [''accession'', ''score'', ''SE''] ''score_data'' ''NA'' = Inl (KeyError k)"
    using format_csv_rows_amended [of "[example_variant_1, example_variant_2]"
        "[''accession'', ''score'', ''SE'']" str_int "''score_data''" "''NA''"]
    by (simp only: if_not_P [OF n])
  from h ev c e show ?thesis by simp
qed

text \<open>
  Claim C5 as it was stated fails where a requested column is absent from a variant's
  map: the second example variant stores no \<^verbatim>\<open>SE\<close>, and the exporter raises instead of
  writing the sentinel.
\<close>

theorem format_csv_rows_absent_column_counterexample:
  "format_csv_rows str_int [example_variant_2] [''accession'', ''score'', ''SE'']
     ''score_data'' ''NA'' = Inl (KeyError ''SE'')"
  by (simp add: column_value_def example_variant_2_def example_is_null example_str_int)

section \<open>Uploading variant data\<close>

lemma find_replaced:
  "\<exists>r\<in>set t. ident r = ident x \<Longrightarrow>
   find (\<lambda>r. ident r = ident x) (map (\<lambda>r. if ident r = ident x then x else r) t) = Some x"
  by (induction t) auto

lemma ident_replaced:
  "\<exists>r\<in>set t. ident r = i \<Longrightarrow> ident x = i \<Longrightarrow>
   \<exists>r\<in>set (map (\<lambda>r. if ident r = ident x then x else r) t). ident r = i"
  by (induction t) auto

lemma one_or_none_Some:
  "one_or_none rows = Inr (Some r) \<Longrightarrow> rows = [r]"
  by (auto simp add: one_or_none_def split: list.splits)

lemma query_scoreset_Some:
  "query_scoreset fault u db = Inr (Some item) \<Longrightarrow>
   item \<in> set (scoreset_table (pending db)) \<and> urn item = u \<and> \<not> is_private item"
proof -
  assume q: "query_scoreset fault u db = Inr (Some item)"
  then have "filter (\<lambda>s. urn s = u \<and> \<not> is_private s) (scoreset_table (pending db)) = [item]"
    by (auto simp add: query_scoreset_def dest: one_or_none_Some split: if_splits)
  then have "item \<in> set (filter (\<lambda>s. urn s = u \<and> \<not> is_private s) (scoreset_table (pending db)))"
    by simp
  then show ?thesis by simp
qed

lemma add_persisted: "persisted (add x db) = persisted db"
  by (simp add: add_def)

lemma add_has_ident:
  "\<exists>r\<in>set (scoreset_table (pending db)). ident r = i \<Longrightarrow> ident x = i \<Longrightarrow>
   \<exists>r\<in>set (scoreset_table (pending (add x db))). ident r = i"
  using ident_replaced [of "scoreset_table (pending db)" i x] by (simp add: add_def)

lemma refresh_add:
  "\<exists>r\<in>set (scoreset_table (pending db)). ident r = ident x \<Longrightarrow> fault \<noteq> RefreshFails \<Longrightarrow>
   refresh fault x ((add x db)\<lparr>persisted := p\<rparr>) = Inr x"
  using find_replaced [of "scoreset_table (pending db)" x] by (simp add: refresh_def add_def)

lemma create_variants_fault:
  "create_variants fault db item vd =
     (if fault = BulkSaveFails then Inl OperationalError else create_variants NoFault db item vd)"
  by (simp add: create_variants_def bulk_save_objects_def Let_def split_beta)

lemma create_variants_NoFault:
  assumes "\<exists>r\<in>set (scoreset_table (pending db)). ident r = ident item"
  shows "\<exists>k item1 db1. create_variants NoFault db item vd = Inr (k, item1, db1)
           \<and> persisted db1 = persisted db \<and> ident item1 = ident item
           \<and> (\<exists>r\<in>set (scoreset_table (pending db1)). ident r = ident item)
           \<and> (\<exists>new. variant_table (pending db1) = variant_table (pending db) @ new)"
proof -
  let ?item1 = "snd (bulk_create_urns (int (length vd)) item False)"
  have i1: "ident ?item1 = ident item" by (simp add: bulk_create_urns_def Let_def)
  obtain db0 where s: "bulk_save_objects NoFault
        (map (\<lambda>(u, kwargs). Variant u (ident ?item1) kwargs)
           (zip (fst (bulk_create_urns (int (length vd)) item False)) vd)) db = Inr db0"
    and t0: "scoreset_table (pending db0) = scoreset_table (pending db)"
    and p0: "persisted db0 = persisted db"
    and v0: "\<exists>new. variant_table (pending db0) = variant_table (pending db) @ new"
    by (simp add: bulk_save_objects_def)
  have c: "create_variants NoFault db item vd =
             Inr (length (scoreset_variants ?item1 (add ?item1 db0)), ?item1, add ?item1 db0)"
    using s by (simp add: create_variants_def Let_def split_beta)
  have "\<exists>r\<in>set (scoreset_table (pending (add ?item1 db0))). ident r = ident item"
    using assms t0 i1 add_has_ident [of db0 "ident item" ?item1] by simp
  moreover have "\<exists>new. variant_table (pending (add ?item1 db0)) = variant_table (pending db) @ new"
    using v0 by (simp add: add_def)
  ultimately show ?thesis using c i1 p0 by (simp add: add_persisted)
qed

lemma save_upload_cases:
  assumes "\<exists>r\<in>set (scoreset_table (pending db)). ident r = ident item"
  shows "(fault \<noteq> RefreshFails \<and> fst (save_upload fault db item vd sc cc user) = Inl e
            \<longrightarrow> persisted (snd (save_upload fault db item vd sc cc user)) = persisted db)
       \<and> (persisted (snd (save_upload fault db item vd sc cc user)) = persisted db
          \<or> persisted (snd (save_upload fault db item vd sc cc user))
               = persisted (snd (save_upload NoFault db item vd sc cc user)))"
proof -
  obtain k item1 db1 where
    c: "create_variants NoFault db item vd = Inr (k, item1, db1)"
    and p1: "persisted db1 = persisted db" and i1: "ident item1 = ident item"
    and h1: "\<exists>r\<in>set (scoreset_table (pending db1)). ident r = ident item"
    using create_variants_NoFault [OF assms, of vd] by blast
  let ?item2 = "item1\<lparr>dataset_columns := \<lparr>count_columns = cc, score_columns = sc\<rparr>,
                       modified_by := user\<rparr>"
  let ?db2 = "add ?item2 db1"
  let ?db3 = "?db2\<lparr>persisted := pending ?db2\<rparr>"
  have h2: "\<exists>r\<in>set (scoreset_table (pending db1)). ident r = ident ?item2"
    using h1 i1 by simp
  have no: "save_upload NoFault db item vd sc cc user = (Inr (Some ?item2), ?db3)"
    using c refresh_add [OF h2, of NoFault "pending ?db2"]
    by (simp add: save_upload_def commit_def Let_def)
  show ?thesis
  proof (cases fault)
    case NoFault
    then show ?thesis using no by simp
  next
    case QueryFails
    then have "save_upload fault db item vd sc cc user = (Inr (Some ?item2), ?db3)"
      using c refresh_add [OF h2, of QueryFails "pending ?db2"] create_variants_fault [of QueryFails db item vd]
      by (simp add: save_upload_def commit_def Let_def)
    then show ?thesis using no by simp
  next
    case BulkSaveFails
    then have "save_upload fault db item vd sc cc user = (Inl OperationalError, db)"
      using create_variants_fault [of BulkSaveFails db item vd] by (simp add: save_upload_def)
    then show ?thesis by simp
  next
    case CommitFails
    then have "save_upload fault db item vd sc cc user = (Inl OperationalError, ?db2)"
      using c create_variants_fault [of CommitFails db item vd]
      by (simp add: save_upload_def commit_def Let_def)
    then show ?thesis using p1 by (simp add: add_persisted)
  next
    case RefreshFails
    then have "save_upload fault db item vd sc cc user = (Inl OperationalError, ?db3)"
      using c create_variants_fault [of RefreshFails db item vd]
      by (simp add: save_upload_def commit_def refresh_def Let_def)
    then show ?thesis using no RefreshFails by simp
  qed
qed

lemma save_upload_NoFault_variants:
  assumes "\<exists>r\<in>set (scoreset_table (pending db)). ident r = ident item"
  shows "\<exists>new. variant_table (persisted (snd (save_upload NoFault db item vd sc cc user)))
                 = variant_table (pending db) @ new"
proof -
  obtain k item1 db1 where
    c: "create_variants NoFault db item vd = Inr (k, item1, db1)"
    and i1: "ident item1 = ident item"
    and h1: "\<exists>r\<in>set (scoreset_table (pending db1)). ident r = ident item"
    and v1: "\<exists>new. variant_table (pending db1) = variant_table (pending db) @ new"
    using create_variants_NoFault [OF assms, of vd] by blast
  let ?item2 = "item1\<lparr>dataset_columns := \<lparr>count_columns = cc, score_columns = sc\<rparr>,
                       modified_by := user\<rparr>"
  let ?db2 = "add ?item2 db1"
  have h2: "\<exists>r\<in>set (scoreset_table (pending db1)). ident r = ident ?item2"
    using h1 i1 by simp
  have "save_upload NoFault db item vd sc cc user =
          (Inr (Some ?item2), ?db2\<lparr>persisted := pending ?db2\<rparr>)"
    using c refresh_add [OF h2, of NoFault "pending ?db2"]
    by (simp add: save_upload_def commit_def Let_def)
  then show ?thesis using v1 by (simp add: add_def)
qed

lemma query_scoreset_NoFault:
  "query_scoreset fault u db = Inr x \<Longrightarrow> query_scoreset NoFault u db = Inr x"
  by (simp add: query_scoreset_def split: if_splits)

lemma upload_cases:
  "(fault \<noteq> RefreshFails
      \<and> fst (upload_scoreset_variant_data P nvl cvd fault d u cf sf user) = Inl e
      \<longrightarrow> snd (upload_scoreset_variant_data P nvl cvd fault d u cf sf user) = d)
   \<and> (snd (upload_scoreset_variant_data P nvl cvd fault d u cf sf user) = d
      \<or> snd (upload_scoreset_variant_data P nvl cvd fault d u cf sf user)
           = snd (upload_scoreset_variant_data P nvl cvd NoFault d u cf sf user))
   \<and> (\<exists>new. variant_table (snd (upload_scoreset_variant_data P nvl cvd fault d u cf sf user))
               = variant_table d @ new)"
proof (cases "query_scoreset fault u (begin_session d)")
  case (Inl err)
  then show ?thesis by (simp add: upload_scoreset_variant_data_def begin_session_def)
next
  case (Inr found)
  note q = Inr
  have qn: "query_scoreset NoFault u (begin_session d) = Inr found"
    using q by (rule query_scoreset_NoFault)
  show ?thesis
  proof (cases found)
    case None
    then show ?thesis using q by (simp add: upload_scoreset_variant_data_def begin_session_def)
  next
    case (Some item)
    have mem: "\<exists>r\<in>set (scoreset_table (pending (begin_session d))). ident r = ident item"
      using query_scoreset_Some [of fault u "begin_session d" item] q Some by auto
    show ?thesis
    proof (cases "urn item = []")
      case True
      then show ?thesis using q Some
        by (simp add: upload_scoreset_variant_data_def begin_session_def)
    next
      case False
      show ?thesis
      proof (cases "read_uploads P nvl cvd cf sf")
        case (Inl err)
        then show ?thesis using q Some False
          by (simp add: upload_scoreset_variant_data_def begin_session_def)
      next
        case (Inr parsed)
        obtain vd sc cc where parsed: "parsed = (vd, sc, cc)" by (cases parsed)
        have u1: "upload_scoreset_variant_data P nvl cvd fault d u cf sf user =
                (fst (save_upload fault (begin_session d) item vd sc cc user),
                 persisted (snd (save_upload fault (begin_session d) item vd sc cc user)))"
          using q Some False Inr parsed
          by (simp add: upload_scoreset_variant_data_def Let_def split_beta)
        have u2: "upload_scoreset_variant_data P nvl cvd NoFault d u cf sf user =
                (fst (save_upload NoFault (begin_session d) item vd sc cc user),
                 persisted (snd (save_upload NoFault (begin_session d) item vd sc cc user)))"
          using qn Some False Inr parsed
          by (simp add: upload_scoreset_variant_data_def Let_def split_beta)
        have b: "persisted (begin_session d) = d" "pending (begin_session d) = d"
          by (simp_all add: begin_session_def)
        have v: "\<exists>new. variant_table (persisted (snd (save_upload NoFault (begin_session d) item vd sc cc user)))
                 = variant_table d @ new"
          using save_upload_NoFault_variants [OF mem, of vd sc cc user] b by simp
        show ?thesis
          using save_upload_cases [OF mem, of fault vd sc cc user e] v
          by (auto simp add: u1 u2 b)
      qed
    qed
  qed
qed

text \<open>
  Claim C9. When no scoreset with \<^verbatim>\<open>private == false\<close> has the urn, the query returns
  \<^verbatim>\<open>None\<close> and the test \<^verbatim>\<open>not item.urn\<close> raises \<^verbatim>\<open>AttributeError\<close>: the route has no
  not-found response. This holds whatever the uploaded files, the parser and
  \<^verbatim>\<open>create_variants_data\<close> are, so nothing was parsed, and the database is as before.
\<close>

theorem upload_missing_scoreset_raises:
  assumes "fault \<noteq> QueryFails"
    and "filter (\<lambda>s. urn s = u \<and> \<not> is_private s) (scoreset_table d) = []"
  shows "upload_scoreset_variant_data P nvl cvd fault d u cf sf user = (Inl AttributeError, d)"
  using assms
  by (simp add: upload_scoreset_variant_data_def query_scoreset_def begin_session_def
      one_or_none_def)

theorem upload_missing_scoreset_raises_witness:
  "NoFault \<noteq> QueryFails
   \<and> filter (\<lambda>s. urn s = ''urn:mavedb:00000009-z-9'' \<and> \<not> is_private s)
        (scoreset_table stored_db) = []
   \<and> upload_scoreset_variant_data example_pandas example_null_values_list
        example_create_variants_data NoFault stored_db ''urn:mavedb:00000009-z-9''
        None example_scores_file ''alice'' = (Inl AttributeError, stored_db)"
proof -
  have h1: "NoFault \<noteq> QueryFails" by simp
  have h2: "filter (\<lambda>s. urn s = ''urn:mavedb:00000009-z-9'' \<and> \<not> is_private s)
        (scoreset_table stored_db) = []"
    by (simp add: stored_db_def example_scoreset_def)
  show ?thesis
    using upload_missing_scoreset_raises [OF h1 h2, where P = example_pandas
        and nvl = example_null_values_list and cvd = example_create_variants_data
        and cf = None and sf = example_scores_file and user = "''alice''"] h1 h2
    by simp
qed

text \<open>
  Claim C3, as the code has it. An upload that fails before its commit has completed
  leaves the database as it was: the counter, the column lists and the variants are
  those from before the call, and a retry starts from them. The one call after the
  commit, \<^verbatim>\<open>db.refresh(item)\<close>, can fail as well; then the request fails with the whole
  upload committed. In every case the database after the request is either the one
  before it or the one a request without failure leaves, never a part of the changes.
\<close>

theorem upload_atomic_until_commit:
  "(fault \<noteq> RefreshFails
      \<and> fst (upload_scoreset_variant_data P nvl cvd fault d u cf sf user) = Inl e
      \<longrightarrow> snd (upload_scoreset_variant_data P nvl cvd fault d u cf sf user) = d)
   \<and> (snd (upload_scoreset_variant_data P nvl cvd fault d u cf sf user) = d
      \<or> snd (upload_scoreset_variant_data P nvl cvd fault d u cf sf user)
           = snd (upload_scoreset_variant_data P nvl cvd NoFault d u cf sf user))"
  using upload_cases [of fault P nvl cvd d u cf sf user e] by blast

theorem upload_atomic_until_commit_witness:
  "BulkSaveFails \<noteq> RefreshFails
   \<and> fst (upload_scoreset_variant_data example_pandas example_null_values_list
            example_create_variants_data BulkSaveFails stored_db ''urn:mavedb:00000001-a-1''
            None example_scores_file ''alice'') = Inl OperationalError
   \<and> snd (upload_scoreset_variant_data example_pandas example_null_values_list
            example_create_variants_data BulkSaveFails stored_db ''urn:mavedb:00000001-a-1''
            None example_scores_file ''alice'') = stored_db"
proof -
  have f: "fst (upload_scoreset_variant_data example_pandas example_null_values_list
            example_create_variants_data BulkSaveFails stored_db ''urn:mavedb:00000001-a-1''
            None example_scores_file ''alice'') = Inl OperationalError"
    by code_simp
  show ?thesis
    using upload_atomic_until_commit [of BulkSaveFails example_pandas example_null_values_list
        example_create_variants_data stored_db "''urn:mavedb:00000001-a-1''" None
        example_scores_file "''alice''" OperationalError] f
    by simp
qed

text \<open>
  Claim C3 as it was stated fails for a failure after the commit: the request raises,
  and the counter has advanced from 9 to 10 with the new variant stored.
\<close>

theorem upload_refresh_failure_counterexample:
  "fst (upload_scoreset_variant_data example_pandas example_null_values_list
          example_create_variants_data RefreshFails stored_db ''urn:mavedb:00000001-a-1''
          None example_scores_file ''alice'') = Inl OperationalError
   \<and> map num_variants (scoreset_table stored_db) = [9]
   \<and> map num_variants
        (scoreset_table
          (snd (upload_scoreset_variant_data example_pandas example_null_values_list
                  example_create_variants_data RefreshFails stored_db
                  ''urn:mavedb:00000001-a-1'' None example_scores_file ''alice''))) = [10]
   \<and> map variant_urn (variant_table stored_db) = [''urn:mavedb:00000001-a-1#9'']
   \<and> map variant_urn
        (variant_table
          (snd (upload_scoreset_variant_data example_pandas example_null_values_list
                  example_create_variants_data RefreshFails stored_db
                  ''urn:mavedb:00000001-a-1'' None example_scores_file ''alice'')))
       = [''urn:mavedb:00000001-a-1#9'', ''urn:mavedb:00000001-a-1#10'']"
  by code_simp

text \<open>
  Claim C1 does not hold of the code. The route logs that it deletes the existing
  variants, and the call that would is commented out: \<^verbatim>\<open>create_variants\<close> only adds
  rows. After a successful upload of one variant to a scoreset that had one, both are
  stored.
\<close>

theorem upload_keeps_old_variants:
  "fst (upload_scoreset_variant_data example_pandas example_null_values_list
          example_create_variants_data NoFault stored_db ''urn:mavedb:00000001-a-1''
          None example_scores_file ''alice'')
     = Inr (Some (example_scoreset\<lparr>num_variants := 10,
                     dataset_columns := \<lparr>count_columns = [], score_columns = [''score'']\<rparr>,
                     modified_by := ''alice''\<rparr>))
   \<and> variant_table stored_db = [old_variant]
   \<and> hd (variant_table
          (snd (upload_scoreset_variant_data example_pandas example_null_values_list
                  example_create_variants_data NoFault stored_db
                  ''urn:mavedb:00000001-a-1'' None example_scores_file ''alice''))) = old_variant
   \<and> map variant_urn
        (variant_table
          (snd (upload_scoreset_variant_data example_pandas example_null_values_list
                  example_create_variants_data NoFault stored_db
                  ''urn:mavedb:00000001-a-1'' None example_scores_file ''alice'')))
       = [''urn:mavedb:00000001-a-1#9'', ''urn:mavedb:00000001-a-1#10'']"
  by code_simp

end
